theory Spec2Isabelle
  imports Main
begin

section \<open>Python values and errors\<close>

text \<open>
  The SDK works on decoded JSON: dictionaries with string keys, lists, strings, integers,
  booleans and \<open>None\<close>. A dictionary is an association list in insertion order; a lookup
  reads the first entry for a key. Numbers are Python's unbounded integers; floating-point
  values are not part of this value model.
\<close>

datatype pyval =
    PNone
  | PBool bool
  | PInt int
  | PStr string
  | PList "pyval list"
  | PDict "(string \<times> pyval) list"

text \<open>
  The exceptions of \<open>models.exceptions\<close> with the keyword arguments the source passes, and
  the built-in exceptions the modelled operations raise. \<open>MissingGeometryError\<close> is named
  by the interface description only: no function of the source raises it.
  \<open>OutsideModel\<close> is not an exception: it marks a JSON text whose value this value model
  cannot hold (a float, a character above U+00FF), for which no outcome is modelled.
\<close>

datatype error =
    KeyError string
  | TypeError
  | AttributeError
  | ValueError
  | RecursionError
  | OutsideModel
  | InvalidKwargError string string pyval "string list"
  | ContradictingError string string string
  | InvalidOptionError string pyval "pyval list"
  | MissingGeometryError

definition bindE :: "error + 'a \<Rightarrow> ('a \<Rightarrow> error + 'b) \<Rightarrow> error + 'b" where
  "bindE m f = (case m of Inl e \<Rightarrow> Inl e | Inr x \<Rightarrow> f x)"

text \<open>\<open>a or b\<close> and \<open>a and b\<close> on conditions that may raise: the right operand is evaluated
  only when the left one does not decide.\<close>

definition py_or :: "error + bool \<Rightarrow> error + bool \<Rightarrow> error + bool" where
  "py_or a b = bindE a (\<lambda>x. if x then Inr True else b)"

definition py_and :: "error + bool \<Rightarrow> error + bool \<Rightarrow> error + bool" where
  "py_and a b = bindE a (\<lambda>x. if x then b else Inr False)"

text \<open>\<open>obj[key]\<close> with a string key: a dictionary looks the key up and raises \<open>KeyError\<close>
  when it is missing; every other value raises \<open>TypeError\<close> (a list or a string takes
  integer indices only, the rest is not subscriptable).\<close>

fun py_getitem :: "pyval \<Rightarrow> string \<Rightarrow> error + pyval" where
  "py_getitem (PDict d) k = (case map_of d k of None \<Rightarrow> Inl (KeyError k) | Some v \<Rightarrow> Inr v)"
| "py_getitem _ k = Inl TypeError"

primrec starts_with :: "string \<Rightarrow> string \<Rightarrow> bool" where
  "starts_with [] s = True"
| "starts_with (c # cs) s = (case s of [] \<Rightarrow> False | d # ds \<Rightarrow> c = d \<and> starts_with cs ds)"

text \<open>\<open>sub in s\<close> on two strings: \<open>sub\<close> occurs in \<open>s\<close> as a contiguous run.\<close>

primrec str_contains :: "string \<Rightarrow> string \<Rightarrow> bool" where
  "str_contains sub [] = (sub = [])"
| "str_contains sub (c # cs) = (starts_with sub (c # cs) \<or> str_contains sub cs)"

text \<open>\<open>key in obj\<close> with a string key: key membership for a dictionary, element membership
  for a list, substring test for a string, \<open>TypeError\<close> for a value that is not iterable.\<close>

fun py_in :: "string \<Rightarrow> pyval \<Rightarrow> error + bool" where
  "py_in k (PDict d) = Inr (k \<in> set (map fst d))"
| "py_in k (PList xs) = Inr (PStr k \<in> set xs)"
| "py_in k (PStr s) = Inr (str_contains k s)"
| "py_in k _ = Inl TypeError"

text \<open>\<open>obj.keys()\<close>: only a dictionary has the method.\<close>

fun py_keys :: "pyval \<Rightarrow> error + string list" where
  "py_keys (PDict d) = Inr (map fst d)"
| "py_keys _ = Inl AttributeError"

text \<open>\<open>v < n\<close> and \<open>v > n\<close> against an integer literal: integers compare by value, a
  boolean counts as 0 or 1, every other value raises \<open>TypeError\<close>.\<close>

fun py_lt_int :: "pyval \<Rightarrow> int \<Rightarrow> error + bool" where
  "py_lt_int (PInt i) n = Inr (i < n)"
| "py_lt_int (PBool b) n = Inr ((if b then 1 else 0) < n)"
| "py_lt_int _ n = Inl TypeError"

fun py_gt_int :: "pyval \<Rightarrow> int \<Rightarrow> error + bool" where
  "py_gt_int (PInt i) n = Inr (i > n)"
| "py_gt_int (PBool b) n = Inr ((if b then 1 else 0) > n)"
| "py_gt_int _ n = Inl TypeError"

text \<open>The integer a number-like value stands for in a comparison.\<close>

fun numeric_value :: "pyval \<Rightarrow> int option" where
  "numeric_value (PInt i) = Some i"
| "numeric_value (PBool b) = Some (if b then 1 else 0)"
| "numeric_value _ = None"

section \<open>controller/rules/verify.py\<close>

text \<open>The loop \<open>for key in kwargs.keys()\<close>: the first key outside \<open>options\<close> raises
  \<open>InvalidKwargError\<close> with the key's value.\<close>

primrec check_keys :: "pyval \<Rightarrow> string list \<Rightarrow> string list \<Rightarrow> string \<Rightarrow> error + unit" where
  "check_keys kwargs [] options callback = Inr ()"
| "check_keys kwargs (key # keys) options callback =
     (if key \<notin> set options
      then bindE (py_getitem kwargs key) (\<lambda>v. Inl (InvalidKwargError callback key v options))
      else check_keys kwargs keys options callback)"

definition contradiction_message :: string where
  "contradiction_message =
     ''Using either or both of min_date and max_date, or use daterange, '' @
     ''but not both at the same time''"

definition kwarg_check :: "pyval \<Rightarrow> string list \<Rightarrow> string \<Rightarrow> error + bool" where
  "kwarg_check kwargs options callback =
     bindE (if kwargs \<noteq> PNone
            then bindE (py_keys kwargs) (\<lambda>keys. check_keys kwargs keys options callback)
            else Inr ())
     (\<lambda>_. bindE (py_and (py_or (py_in ''min_date'' kwargs) (py_in ''max_date'' kwargs))
                        (py_in ''daterange'' kwargs))
     (\<lambda>contradicting.
        if contradicting
        then Inl (ContradictingError ''daterange'' ''min_date/max_date'' contradiction_message)
        else bindE (py_and (py_in ''zoom'' kwargs)
                     (py_or (bindE (py_getitem kwargs ''zoom'') (\<lambda>z. py_lt_int z 14))
                            (bindE (py_getitem kwargs ''zoom'') (\<lambda>z. py_gt_int z 17))))
     (\<lambda>bad_zoom.
        if bad_zoom
        then bindE (py_getitem kwargs ''zoom'')
               (\<lambda>z. Inl (InvalidOptionError ''zoom'' z [PInt 14, PInt 15, PInt 16, PInt 17]))
        else bindE (py_and (py_in ''is_pano'' kwargs)
                     (bindE (py_getitem kwargs ''is_pano'')
                        (\<lambda>p. Inr (p \<notin> set [PStr ''pano'', PStr ''flat'', PStr ''all'']))))
     (\<lambda>bad_pano.
        if bad_pano
        then bindE (py_getitem kwargs ''is_pano'')
               (\<lambda>p. Inl (InvalidOptionError ''is_pano'' p
                            [PStr ''pano'', PStr ''flat'', PStr ''all'']))
        else Inr True))))"

definition image_check :: "pyval \<Rightarrow> error + bool" where
  "image_check kwargs =
     kwarg_check kwargs
       [''min_date'', ''max_date'', ''daterange'', ''radius'', ''image_type'', ''org_id'',
        ''fields'']
       ''image_check''"

definition shape_bbox_check :: "pyval \<Rightarrow> error + bool" where
  "shape_bbox_check kwargs =
     kwarg_check kwargs [''max_date'', ''min_date'', ''is_pano''] ''shape_bbox_check''"

section \<open>utils/format.py\<close>

subsection \<open>Dictionary stores, iteration and int()\<close>

text \<open>\<open>d[k] = v\<close> on a dictionary: an existing key keeps its place and takes the new value,
  a new key goes to the end.\<close>

fun dict_set :: "(string \<times> pyval) list \<Rightarrow> string \<Rightarrow> pyval \<Rightarrow> (string \<times> pyval) list" where
  "dict_set [] k v = [(k, v)]"
| "dict_set ((k', v') # d) k v = (if k' = k then (k, v) # d else (k', v') # dict_set d k v)"

definition dict_del :: "(string \<times> pyval) list \<Rightarrow> string \<Rightarrow> (string \<times> pyval) list" where
  "dict_del d k = filter (\<lambda>kv. fst kv \<noteq> k) d"

text \<open>\<open>obj[key] = v\<close> with a string key: only a dictionary accepts it.\<close>

fun py_setitem :: "pyval \<Rightarrow> string \<Rightarrow> pyval \<Rightarrow> error + pyval" where
  "py_setitem (PDict d) k v = Inr (PDict (dict_set d k v))"
| "py_setitem _ k v = Inl TypeError"

text \<open>\<open>for x in obj\<close>: a list yields its elements, a dictionary its keys, a string its
  characters; the other values are not iterable.\<close>

fun py_iter :: "pyval \<Rightarrow> error + pyval list" where
  "py_iter (PList xs) = Inr xs"
| "py_iter (PDict d) = Inr (map (\<lambda>kv. PStr (fst kv)) d)"
| "py_iter (PStr s) = Inr (map (\<lambda>c. PStr [c]) s)"
| "py_iter _ = Inl TypeError"

text \<open>The white space \<open>int()\<close> strips from a string: the ASCII white space of C, and
  the two further white-space characters below U+0100, which lie above U+007F.\<close>

definition is_space :: "char \<Rightarrow> bool" where
  "is_space c = ((of_char c :: nat) \<in> {9, 10, 11, 12, 13, 32, 133, 160})"

definition is_digit :: "char \<Rightarrow> bool" where
  "is_digit c = (48 \<le> (of_char c :: nat) \<and> (of_char c :: nat) \<le> 57)"

definition digit_value :: "char \<Rightarrow> nat" where
  "digit_value c = of_char c - 48"

text \<open>The interpreter's default limit on the number of digits in a conversion between
  \<open>int\<close> and \<open>str\<close>; a longer numeral raises \<open>ValueError\<close> in either direction.\<close>

definition max_str_digits :: nat where
  "max_str_digits = 4300"

text \<open>Decimal digits, where a single underscore may stand between two digits.\<close>

fun parse_digits :: "string \<Rightarrow> nat \<Rightarrow> nat option" where
  "parse_digits [] acc = Some acc"
| "parse_digits (c # cs) acc =
     (if is_digit c then parse_digits cs (acc * 10 + digit_value c)
      else if c = CHR ''_'' \<and> (case cs of [] \<Rightarrow> False | d # _ \<Rightarrow> is_digit d)
      then parse_digits cs acc
      else None)"

text \<open>An unsigned numeral: it starts with a digit and has no more digits than the limit.\<close>

definition parse_unsigned :: "string \<Rightarrow> nat option" where
  "parse_unsigned s =
     (case s of
        [] \<Rightarrow> None
      | c # _ \<Rightarrow>
          if is_digit c \<and> length (filter is_digit s) \<le> max_str_digits
          then parse_digits s 0 else None)"

definition strip :: "string \<Rightarrow> string" where
  "strip s = dropWhile is_space (rev (dropWhile is_space (rev s)))"

text \<open>\<open>int(v)\<close>: an integer is itself, a boolean is 0 or 1, a string is read as a signed
  decimal numeral between optional white space (\<open>ValueError\<close> otherwise, also for a
  numeral beyond the digit limit); \<open>None\<close>, lists and dictionaries raise \<open>TypeError\<close>.\<close>

fun py_int :: "pyval \<Rightarrow> error + int" where
  "py_int (PInt i) = Inr i"
| "py_int (PBool b) = Inr (if b then 1 else 0)"
| "py_int (PStr s) =
     (case strip s of
        [] \<Rightarrow> Inl ValueError
      | c # cs \<Rightarrow>
          if c = CHR ''-''
          then (case parse_unsigned cs of None \<Rightarrow> Inl ValueError | Some n \<Rightarrow> Inr (- int n))
          else if c = CHR ''+''
          then (case parse_unsigned cs of None \<Rightarrow> Inl ValueError | Some n \<Rightarrow> Inr (int n))
          else (case parse_unsigned (c # cs) of None \<Rightarrow> Inl ValueError | Some n \<Rightarrow> Inr (int n)))"
| "py_int _ = Inl TypeError"

text \<open>A comprehension or loop body that may raise, run over a list from left to right.\<close>

primrec mapE :: "('a \<Rightarrow> error + 'b) \<Rightarrow> 'a list \<Rightarrow> error + 'b list" where
  "mapE f [] = Inr []"
| "mapE f (x # xs) = bindE (f x) (\<lambda>y. bindE (mapE f xs) (\<lambda>ys. Inr (y # ys)))"

subsection \<open>feature_to_geojson\<close>

text \<open>The loop \<open>for key in keys: feature["properties"][key] = json_data[key]\<close>, on the
  properties dictionary of the feature under construction.\<close>

primrec copy_properties ::
  "pyval \<Rightarrow> string list \<Rightarrow> (string \<times> pyval) list \<Rightarrow> error + (string \<times> pyval) list" where
  "copy_properties json_data [] properties = Inr properties"
| "copy_properties json_data (key # keys) properties =
     bindE (py_getitem json_data key)
       (\<lambda>v. copy_properties json_data keys (dict_set properties key v))"

definition feature_to_geojson :: "pyval \<Rightarrow> error + pyval" where
  "feature_to_geojson json_data =
     bindE (py_keys json_data)
     (\<lambda>all_keys.
        let keys = filter (\<lambda>key. key \<noteq> ''geometry'') all_keys in
        bindE (py_getitem json_data ''geometry'')
     (\<lambda>geometry.
        bindE (copy_properties json_data keys [])
     (\<lambda>properties.
        Inr (PDict [(''type'', PStr ''Feature''), (''geometry'', geometry),
                    (''properties'', PDict properties)]))))"

subsection \<open>join_geojson_with_keys\<close>

text \<open>The store \<open>target["properties"][key] = v\<close>.\<close>

definition set_property :: "pyval \<Rightarrow> string \<Rightarrow> pyval \<Rightarrow> error + pyval" where
  "set_property target key v =
     bindE (py_getitem target ''properties'')
     (\<lambda>properties. bindE (py_setitem properties key v)
     (\<lambda>properties'. py_setitem target ''properties'' properties'))"

text \<open>
  The loop over \<open>new_properties\<close>. The right-hand side of the assignment is
  \<open>old_properties["properties"][new_property]\<close>, where \<open>old_properties\<close> is the list of
  the source feature's keys; Python evaluates it before the store.
\<close>

primrec copy_new_properties ::
  "string list \<Rightarrow> string list \<Rightarrow> pyval \<Rightarrow> error + pyval" where
  "copy_new_properties old_properties [] from_features = Inr from_features"
| "copy_new_properties old_properties (new_property # rest) from_features =
     (if new_property \<notin> set old_properties
      then bindE (bindE (py_getitem (PList (map PStr old_properties)) ''properties'')
                    (\<lambda>source. py_getitem source new_property))
           (\<lambda>v. bindE (set_property from_features new_property v)
           (\<lambda>from_features'. copy_new_properties old_properties rest from_features'))
      else copy_new_properties old_properties rest from_features)"

text \<open>One pass of the inner loop body for a source feature and a destination feature;
  the result is the source feature after the pass.\<close>

definition join_pair :: "string \<Rightarrow> string \<Rightarrow> pyval \<Rightarrow> pyval \<Rightarrow> error + pyval" where
  "join_pair geojson_src_key geojson_dest_key from_features into_features =
     bindE (py_or
              (bindE (py_getitem into_features ''properties'')
                 (\<lambda>p. bindE (py_in geojson_dest_key p) (\<lambda>b. Inr (\<not> b))))
              (bindE (py_getitem from_features ''properties'')
                 (\<lambda>p. bindE (py_in geojson_src_key p) (\<lambda>b. Inr (\<not> b)))))
     (\<lambda>key_missing.
        if key_missing then Inr from_features
        else
          bindE (bindE (py_getitem from_features ''properties'')
                   (\<lambda>p. bindE (py_getitem p geojson_src_key) py_int))
     (\<lambda>src_id.
          bindE (bindE (py_getitem into_features ''properties'')
                   (\<lambda>p. bindE (py_getitem p geojson_dest_key) py_int))
     (\<lambda>dest_id.
          if src_id = dest_id
          then bindE (bindE (py_getitem from_features ''properties'') py_keys)
               (\<lambda>old_properties.
                  bindE (bindE (py_getitem into_features ''properties'') py_keys)
               (\<lambda>new_properties.
                  copy_new_properties old_properties new_properties from_features))
          else Inr from_features)))"

primrec join_into :: "string \<Rightarrow> string \<Rightarrow> pyval \<Rightarrow> pyval list \<Rightarrow> error + pyval" where
  "join_into geojson_src_key geojson_dest_key from_features [] = Inr from_features"
| "join_into geojson_src_key geojson_dest_key from_features (into_features # rest) =
     bindE (join_pair geojson_src_key geojson_dest_key from_features into_features)
       (\<lambda>from_features'. join_into geojson_src_key geojson_dest_key from_features' rest)"

text \<open>The outer loop; \<open>geojson_dest["features"]\<close> is read once for each source feature.\<close>

primrec join_from :: "string \<Rightarrow> string \<Rightarrow> pyval \<Rightarrow> pyval list \<Rightarrow> error + pyval list" where
  "join_from geojson_src_key geojson_dest_key geojson_dest [] = Inr []"
| "join_from geojson_src_key geojson_dest_key geojson_dest (from_features # rest) =
     bindE (bindE (py_getitem geojson_dest ''features'') py_iter)
     (\<lambda>dest_features.
        bindE (join_into geojson_src_key geojson_dest_key from_features dest_features)
     (\<lambda>from_features'.
        bindE (join_from geojson_src_key geojson_dest_key geojson_dest rest)
     (\<lambda>rest'. Inr (from_features' # rest'))))"

text \<open>The features of \<open>geojson_src\<close> are mutated in place; the model writes the features
  after the loops back into the collection when its \<open>features\<close> value is a list (the
  elements yielded by a dictionary or a string are not part of the collection).\<close>

definition store_features :: "pyval \<Rightarrow> pyval list \<Rightarrow> pyval" where
  "store_features geojson_src updated =
     (case geojson_src of
        PDict d \<Rightarrow>
          (case map_of d ''features'' of
             Some (PList _) \<Rightarrow> PDict (dict_set d ''features'' (PList updated))
           | _ \<Rightarrow> geojson_src)
      | _ \<Rightarrow> geojson_src)"

definition join_geojson_with_keys ::
  "pyval \<Rightarrow> string \<Rightarrow> pyval \<Rightarrow> string \<Rightarrow> error + pyval" where
  "join_geojson_with_keys geojson_src geojson_src_key geojson_dest geojson_dest_key =
     bindE (bindE (py_getitem geojson_src ''features'') py_iter)
     (\<lambda>src_features.
        bindE (join_from geojson_src_key geojson_dest_key geojson_dest src_features)
     (\<lambda>updated. Inr (store_features geojson_src updated)))"

subsection \<open>json.dumps and json.loads\<close>

text \<open>
  The text \<open>json.dumps\<close> writes with its default arguments: items separated by a comma
  and a space, keys from values by a colon and a space, strings in double quotes with
  every character outside the printable ASCII range, the double quote and the backslash
  escaped.
\<close>

definition hex_digit :: "nat \<Rightarrow> char" where
  "hex_digit n = ''0123456789abcdef'' ! (n mod 16)"

definition escape_char :: "char \<Rightarrow> string" where
  "escape_char c =
     (if c = CHR 0x22 then [CHR 0x5C, CHR 0x22]
      else if c = CHR 0x5C then [CHR 0x5C, CHR 0x5C]
      else if c = CHR 0x0A then [CHR 0x5C, CHR ''n'']
      else if c = CHR 0x0D then [CHR 0x5C, CHR ''r'']
      else if c = CHR 0x09 then [CHR 0x5C, CHR ''t'']
      else if c = CHR 0x08 then [CHR 0x5C, CHR ''b'']
      else if c = CHR 0x0C then [CHR 0x5C, CHR ''f'']
      else if (of_char c :: nat) < 32 \<or> 126 < (of_char c :: nat)
      then [CHR 0x5C, CHR ''u'', CHR ''0'', CHR ''0'',
            hex_digit (of_char c div 16), hex_digit (of_char c mod 16)]
      else [c])"

definition json_string :: "string \<Rightarrow> string" where
  "json_string s = [CHR 0x22] @ concat (map escape_char s) @ [CHR 0x22]"

fun nat_repr :: "nat \<Rightarrow> string" where
  "nat_repr n =
     (if n < 10 then [''0123456789'' ! n]
      else nat_repr (n div 10) @ [''0123456789'' ! (n mod 10)])"

declare nat_repr.simps [simp del]

definition int_repr :: "int \<Rightarrow> string" where
  "int_repr i = (if i < 0 then CHR ''-'' # nat_repr (nat (- i)) else nat_repr (nat i))"

primrec join_with :: "string \<Rightarrow> string list \<Rightarrow> string" where
  "join_with sep [] = []"
| "join_with sep (x # xs) = (if xs = [] then x else x @ sep @ join_with sep xs)"


text \<open>
  \<open>json.dumps\<close> itself. An integer beyond the digit limit raises \<open>ValueError\<close>. The
  encoder enters one level of recursion for every list and dictionary; \<open>budget\<close> is the
  number of levels the interpreter's recursion limit leaves at the call, and a value
  nested deeper raises \<open>RecursionError\<close>. Items are encoded from left to right.
\<close>

definition int_text :: "int \<Rightarrow> error + string" where
  "int_text i =
     (if max_str_digits < length (nat_repr (nat \<bar>i\<bar>)) then Inl ValueError else Inr (int_repr i))"

fun json_dumps :: "nat \<Rightarrow> pyval \<Rightarrow> error + string" where
  "json_dumps budget PNone = Inr ''null''"
| "json_dumps budget (PBool b) = Inr (if b then ''true'' else ''false'')"
| "json_dumps budget (PInt i) = int_text i"
| "json_dumps budget (PStr s) = Inr (json_string s)"
| "json_dumps 0 (PList xs) = Inl RecursionError"
| "json_dumps (Suc budget) (PList xs) =
     bindE (mapE (json_dumps budget) xs)
       (\<lambda>texts. Inr (''['' @ join_with '', '' texts @ '']''))"
| "json_dumps 0 (PDict d) = Inl RecursionError"
| "json_dumps (Suc budget) (PDict d) =
     bindE (mapE (\<lambda>(k, v). bindE (json_dumps budget v)
                                (\<lambda>text. Inr (json_string k @ '': '' @ text))) d)
       (\<lambda>texts. Inr (''{'' @ join_with '', '' texts @ ''}''))"




text \<open>
  \<open>json.loads\<close> on a string: white space between the tokens, strings with the escapes of
  JSON, integers (a numeral with a fraction or an exponent, \<open>NaN\<close> and \<open>Infinity\<close> denote
  floats, outside this value model), \<open>null\<close>, \<open>true\<close>, \<open>false\<close>, arrays and objects. A
  malformed text raises \<open>JSONDecodeError\<close>, a \<open>ValueError\<close>.
\<close>

definition is_json_space :: "char \<Rightarrow> bool" where
  "is_json_space c = (c = CHR 0x20 \<or> c = CHR 0x09 \<or> c = CHR 0x0A \<or> c = CHR 0x0D)"

definition skip_ws :: "string \<Rightarrow> string" where
  "skip_ws s = dropWhile is_json_space s"

definition hex_value :: "char \<Rightarrow> nat option" where
  "hex_value c =
     (let n = (of_char c :: nat) in
      if 48 \<le> n \<and> n \<le> 57 then Some (n - 48)
      else if 97 \<le> n \<and> n \<le> 102 then Some (n - 87)
      else if 65 \<le> n \<and> n \<le> 70 then Some (n - 55)
      else None)"

definition unescape :: "char \<Rightarrow> char option" where
  "unescape e =
     (if e = CHR 0x22 then Some (CHR 0x22)
      else if e = CHR 0x5C then Some (CHR 0x5C)
      else if e = CHR ''/'' then Some (CHR ''/'')
      else if e = CHR ''b'' then Some (CHR 0x08)
      else if e = CHR ''f'' then Some (CHR 0x0C)
      else if e = CHR ''n'' then Some (CHR 0x0A)
      else if e = CHR ''r'' then Some (CHR 0x0D)
      else if e = CHR ''t'' then Some (CHR 0x09)
      else None)"

fun scan_string :: "string \<Rightarrow> error + (string \<times> string)" where
  "scan_string [] = Inl ValueError"
| "scan_string (c # cs) =
     (if c = CHR 0x22 then Inr ([], cs)
      else if c = CHR 0x5C then
        (case cs of
           [] \<Rightarrow> Inl ValueError
         | e # es \<Rightarrow>
             if e = CHR ''u'' then
               (case es of
                  h1 # h2 # h3 # h4 # rest \<Rightarrow>
                    (case (hex_value h1, hex_value h2, hex_value h3, hex_value h4) of
                       (Some a, Some b, Some hi, Some lo) \<Rightarrow>
                         if a = 0 \<and> b = 0
                         then bindE (scan_string rest)
                                (\<lambda>(s, r). Inr (char_of (16 * hi + lo) # s, r))
                         else Inl OutsideModel
                     | _ \<Rightarrow> Inl ValueError)
                | _ \<Rightarrow> Inl ValueError)
             else
               (case unescape e of
                  None \<Rightarrow> Inl ValueError
                | Some ch \<Rightarrow> bindE (scan_string es) (\<lambda>(s, r). Inr (ch # s, r))))
      else if (of_char c :: nat) < 32 then Inl ValueError
      else bindE (scan_string cs) (\<lambda>(s, r). Inr (c # s, r)))"









subsection \<open>geojson_to_features_list and merged_features_list_to_geojson\<close>


text \<open>The result is the JSON text, a Python \<open>str\<close>.\<close>

definition merged_features_list_to_geojson :: "nat \<Rightarrow> pyval \<Rightarrow> error + string" where
  "merged_features_list_to_geojson budget features_list =
     json_dumps budget
       (PDict [(''type'', PStr ''FeatureCollection''), (''features'', features_list)])"

subsection \<open>detection_features_to_geojson\<close>

text \<open>The \<open>geometry\<close> entry of an output feature: the image's point when the record has
  an \<open>image\<close>, the empty dictionary otherwise.\<close>

definition detection_geometry :: "pyval \<Rightarrow> error + pyval" where
  "detection_geometry feature =
     bindE (py_in ''image'' feature)
     (\<lambda>has_image.
        if has_image
        then bindE (py_getitem feature ''image'')
             (\<lambda>image. bindE (py_getitem image ''geometry'')
             (\<lambda>geometry. bindE (py_getitem geometry ''coordinates'')
             (\<lambda>coordinates.
                Inr (PDict [(''type'', PStr ''Point''), (''coordinates'', coordinates)]))))
        else Inr (PDict []))"

text \<open>\<open>feature[key] if key in feature else None\<close>.\<close>

definition get_or_none :: "pyval \<Rightarrow> string \<Rightarrow> error + pyval" where
  "get_or_none feature key =
     bindE (py_in key feature) (\<lambda>present. if present then py_getitem feature key else Inr PNone)"

text \<open>The \<open>properties\<close> entry. The guard of \<open>image_id\<close> is \<open>"image" in "feature"\<close>: the
  right operand is the string literal, not the record.\<close>

definition detection_properties :: "pyval \<Rightarrow> error + (string \<times> pyval) list" where
  "detection_properties feature =
     bindE (bindE (py_in ''image'' (PStr ''feature''))
              (\<lambda>guard. if guard
                        then bindE (py_getitem feature ''image'') (\<lambda>image. py_getitem image ''id'')
                        else Inr PNone))
     (\<lambda>image_id. bindE (get_or_none feature ''created_at'')
     (\<lambda>created_at. bindE (get_or_none feature ''geometry'')
     (\<lambda>pixel_geometry. bindE (get_or_none feature ''value'')
     (\<lambda>val. bindE (py_getitem feature ''id'')
     (\<lambda>ident.
        Inr [(''image_id'', image_id), (''created_at'', created_at),
             (''pixel_geometry'', pixel_geometry), (''value'', val), (''id'', ident)])))))"

definition detection_feature :: "pyval \<Rightarrow> error + pyval" where
  "detection_feature feature =
     bindE (detection_geometry feature)
     (\<lambda>geometry. bindE (detection_properties feature)
     (\<lambda>properties.
        Inr (PDict [(''type'', PStr ''Feature''), (''geometry'', geometry),
                    (''properties'', PDict properties)])))"

text \<open>
  The clean-up loop \<open>for _property in _feature["properties"]\<close>: the loop variable is a
  key of the dictionary, a string, and the entry is deleted when the key itself
  \<open>is None\<close>.
\<close>

primrec delete_none_properties ::
  "string list \<Rightarrow> (string \<times> pyval) list \<Rightarrow> (string \<times> pyval) list" where
  "delete_none_properties [] properties = properties"
| "delete_none_properties (property # rest) properties =
     delete_none_properties rest
       (if PStr property = PNone then dict_del properties property else properties)"

text \<open>The clean-up of one feature of the result. The properties are a dictionary by
  construction; on another value the loop would run over its items and fail at an item
  that is \<open>None\<close>.\<close>

definition clean_feature :: "pyval \<Rightarrow> error + pyval" where
  "clean_feature feature' =
     bindE (py_getitem feature' ''properties'')
     (\<lambda>properties.
        case properties of
          PDict d \<Rightarrow>
            py_setitem feature' ''properties''
              (PDict (delete_none_properties (map fst d) d))
        | _ \<Rightarrow>
            bindE (py_iter properties)
              (\<lambda>items. if PNone \<in> set items then Inl TypeError else Inr feature'))"

text \<open>The comprehension builds every feature; the clean-up then goes through the
  features of the result.\<close>

definition detection_features_to_geojson :: "pyval \<Rightarrow> error + pyval" where
  "detection_features_to_geojson feature_list =
     bindE (py_iter feature_list)
     (\<lambda>records. bindE (mapE detection_feature records)
     (\<lambda>features. bindE (mapE clean_feature features)
     (\<lambda>cleaned.
        Inr (PDict [(''type'', PStr ''FeatureCollection''), (''features'', PList cleaned)]))))"

section \<open>controller/feature.py\<close>

text \<open>A tile of \<open>mercantile.tiles\<close>: its \<open>x\<close>, \<open>y\<close> and \<open>z\<close>.\<close>

datatype tile = Tile (tile_x: int) (tile_y: int) (tile_z: int)

text \<open>The HTTP response, of which the controller reads \<open>content\<close>.\<close>

record response =
  content :: string

text \<open>
  The controller calls code that is not part of the three source files: the filter
  validator \<open>points_traffic_signs_check\<close>, the HTTP client, the tile enumeration, the
  two URL builders of \<open>VectorTiles\<close>, the vector-tile decoder and the filter
  \<open>pipeline\<close>. They are parameters of the model; each may raise. The client is a value
  of type \<open>'c\<close> that a request may change. The last parameter is the number of levels of
  recursion the interpreter leaves to \<open>json.dumps\<close> at the end of the call.
\<close>

record 'c collaborators =
  points_traffic_signs_check :: "pyval \<Rightarrow> error + pyval"
  Client :: "error + 'c"
  mercantile_tiles :: "pyval \<Rightarrow> pyval \<Rightarrow> pyval \<Rightarrow> pyval \<Rightarrow> int \<Rightarrow> error + tile list"
  get_map_feature_point :: "int \<Rightarrow> int \<Rightarrow> int \<Rightarrow> error + string"
  get_map_feature_traffic_signs :: "int \<Rightarrow> int \<Rightarrow> int \<Rightarrow> error + string"
  client_get :: "'c \<Rightarrow> string \<Rightarrow> (error + response) \<times> 'c"
  vt_bytes_to_geojson :: "string \<Rightarrow> int \<Rightarrow> int \<Rightarrow> int \<Rightarrow> error + pyval"
  pipeline :: "pyval \<Rightarrow> pyval list \<Rightarrow> error + pyval"
  recursion_budget :: nat

text \<open>What a run does to the outside, in order: the call of the validator with the
  caller's filters, each tile request with its URL, each call of the pipeline with the
  decoded tile and the stage list.\<close>

datatype event =
    Validate pyval
  | Fetch string
  | Pipeline pyval "pyval list"


text \<open>A date stage of the list:
  \<open>{"filter": name, name: filters[name]} if filters[name] is not None else {}\<close>.\<close>

definition date_component :: "pyval \<Rightarrow> string \<Rightarrow> error + pyval" where
  "date_component filters name =
     bindE (py_getitem filters name)
     (\<lambda>v. if v \<noteq> PNone
          then bindE (py_getitem filters name)
                 (\<lambda>date. Inr (PDict [(''filter'', PStr name), (name, date)]))
          else Inr (PDict []))"

text \<open>The list \<open>components=[...]\<close> of the call of \<open>pipeline\<close>, its four entries
  evaluated from left to right.\<close>

definition pipeline_components :: "pyval \<Rightarrow> pyval \<Rightarrow> pyval \<Rightarrow> error + pyval list" where
  "pipeline_components bbox filter_values filters =
     (let by_value =
            (if filter_values \<noteq> PNone
             then PDict [(''filter'', PStr ''filter_values''), (''values'', filter_values),
                         (''property'', PStr ''value'')]
             else PDict []);
          in_bbox = PDict [(''filter'', PStr ''features_in_bounding_box''), (''bbox'', bbox)]
      in bindE (date_component filters ''existed_at'')
         (\<lambda>at. bindE (date_component filters ''existed_before'')
         (\<lambda>before. Inr [by_value, in_bbox, at, before])))"

text \<open>The endpoint of a tile: \<open>get_map_feature_point\<close> for the layer \<open>"points"\<close>,
  \<open>get_map_feature_traffic_signs\<close> for every other layer.\<close>

definition tile_url :: "'c collaborators \<Rightarrow> string \<Rightarrow> tile \<Rightarrow> error + string" where
  "tile_url env layer tile =
     (if layer = ''points''
      then get_map_feature_point env (tile_x tile) (tile_y tile) (tile_z tile)
      else get_map_feature_traffic_signs env (tile_x tile) (tile_y tile) (tile_z tile))"

text \<open>The loop \<open>for tile in tiles\<close>, with the client and the list
  \<open>filtered_features\<close> as state; the result comes with the events of the run.\<close>

fun tile_loop ::
  "'c collaborators \<Rightarrow> pyval \<Rightarrow> pyval \<Rightarrow> pyval \<Rightarrow> string \<Rightarrow> tile list \<Rightarrow> 'c \<Rightarrow> pyval list \<Rightarrow>
     (error + pyval list) \<times> event list" where
  "tile_loop env bbox filter_values filters layer [] client filtered_features =
     (Inr filtered_features, [])"
| "tile_loop env bbox filter_values filters layer (tile # tiles) client filtered_features =
     (case tile_url env layer tile of
        Inl e \<Rightarrow> (Inl e, [])
      | Inr url \<Rightarrow>
          (case client_get env client url of
             (Inl e, client') \<Rightarrow> (Inl e, [Fetch url])
           | (Inr res, client') \<Rightarrow>
               (case vt_bytes_to_geojson env (content res) (tile_x tile) (tile_y tile) (tile_z tile) of
                  Inl e \<Rightarrow> (Inl e, [Fetch url])
                | Inr data \<Rightarrow>
                    (case pipeline_components bbox filter_values filters of
                       Inl e \<Rightarrow> (Inl e, [Fetch url])
                     | Inr components \<Rightarrow>
                         (case bindE (pipeline env data components) py_iter of
                            Inl e \<Rightarrow> (Inl e, [Fetch url, Pipeline data components])
                          | Inr kept \<Rightarrow>
                              (case tile_loop env bbox filter_values filters layer tiles client'
                                      (filtered_features @ kept) of
                                 (result, trace) \<Rightarrow>
                                   (result, Fetch url # Pipeline data components # trace)))))))"

text \<open>
  The controller: validation, the client, the tiles of the bounding box at zoom 14, the
  loop, and the JSON text of the merged features. The first component of the result is
  the returned string or the exception raised, the second the events up to that point.
\<close>

definition get_map_features_in_bbox_controller ::
  "'c collaborators \<Rightarrow> pyval \<Rightarrow> pyval \<Rightarrow> pyval \<Rightarrow> string \<Rightarrow> (error + string) \<times> event list" where
  "get_map_features_in_bbox_controller env bbox filter_values filters layer =
     (case points_traffic_signs_check env filters of
        Inl e \<Rightarrow> (Inl e, [Validate filters])
      | Inr filters' \<Rightarrow>
          (case Client env of
             Inl e \<Rightarrow> (Inl e, [Validate filters])
           | Inr client \<Rightarrow>
               (case bindE (py_getitem bbox ''west'')
                       (\<lambda>west. bindE (py_getitem bbox ''south'')
                       (\<lambda>south. bindE (py_getitem bbox ''east'')
                       (\<lambda>east. bindE (py_getitem bbox ''north'')
                       (\<lambda>north. mercantile_tiles env west south east north 14)))) of
                  Inl e \<Rightarrow> (Inl e, [Validate filters])
                | Inr tiles \<Rightarrow>
                    (case tile_loop env bbox filter_values filters' layer tiles client [] of
                       (Inl e, trace) \<Rightarrow> (Inl e, Validate filters # trace)
                     | (Inr filtered_features, trace) \<Rightarrow>
                         (merged_features_list_to_geojson (recursion_budget env)
                            (PList filtered_features),
                          Validate filters # trace)))))"

subsection \<open>A concrete run\<close>

text \<open>
  Collaborators for running the controller on concrete requests: the validator checks the
  keys with \<open>kwarg_check\<close>, as \<open>image_check\<close> and \<open>shape_bbox_check\<close> do, and hands
  the filters on; the bounding box is covered by two tiles, each of which decodes to one
  feature; the client counts its requests; the pipeline hands on the features of the tile.
\<close>

definition scenario_tile_data :: pyval where
  "scenario_tile_data =
     PDict [(''type'', PStr ''FeatureCollection''),
            (''features'',
             PList [PDict [(''type'', PStr ''Feature''),
                           (''geometry'', PDict [(''type'', PStr ''Point''),
                                                 (''coordinates'', PList [PInt 5, PInt 5])]),
                           (''properties'', PDict [(''value'', PStr ''object--street-light'')])]])]"

definition scenario_env :: "nat collaborators" where
  "scenario_env =
     \<lparr> points_traffic_signs_check =
         (\<lambda>filters. bindE (kwarg_check filters [''existed_at'', ''existed_before'']
                             ''points_traffic_signs_check'')
                       (\<lambda>_. Inr filters)),
       Client = Inr 0,
       mercantile_tiles =
         (\<lambda>west south east north zooms. Inr [Tile 8191 8191 zooms, Tile 8192 8191 zooms]),
       get_map_feature_point = (\<lambda>x y z. Inr (if x = 8191 then ''point-west'' else ''point-east'')),
       get_map_feature_traffic_signs = (\<lambda>x y z. Inr ''traffic-sign''),
       client_get = (\<lambda>requests url. (Inr \<lparr> content = url \<rparr>, Suc requests)),
       vt_bytes_to_geojson = (\<lambda>bytes x y z. Inr scenario_tile_data),
       pipeline = (\<lambda>data components. py_getitem data ''features''),
       recursion_budget = 100 \<rparr>"

definition scenario_bbox :: pyval where
  "scenario_bbox =
     PDict [(''west'', PInt (-10)), (''south'', PInt (-10)), (''east'', PInt 10),
            (''north'', PInt 10)]"

section \<open>Notions for the proofs about JSON texts\<close>

text \<open>What may follow a value in a text: nothing, a comma or a closing bracket.\<close>

definition delimited :: "string \<Rightarrow> bool" where
  "delimited rest =
     (case rest of [] \<Rightarrow> True | c # _ \<Rightarrow> c = CHR '','' \<or> c = CHR '']'' \<or> c = CHR ''}'')"

text \<open>A text that starts with a character that is neither white space nor a closing
  bracket.\<close>

definition starts_clean :: "string \<Rightarrow> bool" where
  "starts_clean s =
     (case s of [] \<Rightarrow> False
      | c # _ \<Rightarrow> \<not> is_json_space c \<and> c \<noteq> CHR '']'' \<and> c \<noteq> CHR ''}'')"



section \<open>Basic facts\<close>

lemma bindE_Inr: "bindE m f = Inr y \<longleftrightarrow> (\<exists>x. m = Inr x \<and> f x = Inr y)"
  by (cases m) (auto simp: bindE_def)

section \<open>Properties of kwarg_check\<close>

lemma check_keys_allowed:
  "set keys \<subseteq> set options \<Longrightarrow> check_keys kwargs keys options callback = Inr ()"
  by (induction keys) auto

lemma map_of_key_in: "map_of d k = Some v \<Longrightarrow> k \<in> set (map fst d)"
  by (metis map_of_eq_None_iff option.distinct(1) set_map)

text \<open>
  C9. With \<open>kwargs = None\<close> the key loop is skipped, and the first membership test
  \<open>"min_date" in kwargs\<close> is applied to \<open>None\<close>: the call raises \<open>TypeError\<close> whatever
  the options and the callback name are, so it never returns \<open>True\<close>.
\<close>

theorem kwarg_check_None_type_error:
  "kwarg_check PNone options callback = Inl TypeError"
  by (simp add: kwarg_check_def bindE_def py_and_def py_or_def)

text \<open>
  C8. A kwargs dictionary whose keys are all allowed and which holds \<open>daterange\<close> together
  with \<open>min_date\<close> or \<open>max_date\<close> is rejected with \<open>ContradictingError\<close>.
\<close>

theorem kwarg_check_contradicting:
  assumes "set (map fst d) \<subseteq> set options"
    and "''daterange'' \<in> set (map fst d)"
    and "''min_date'' \<in> set (map fst d) \<or> ''max_date'' \<in> set (map fst d)"
  shows "kwarg_check (PDict d) options callback =
           Inl (ContradictingError ''daterange'' ''min_date/max_date'' contradiction_message)"
  using assms check_keys_allowed[of "map fst d" options "PDict d" callback]
  by (auto simp: kwarg_check_def bindE_def py_and_def py_or_def)

theorem kwarg_check_contradicting_witness:
  "image_check (PDict [(''daterange'', PStr ''2021''), (''min_date'', PStr ''2020'')]) =
   Inl (ContradictingError ''daterange'' ''min_date/max_date'' contradiction_message)"
  using kwarg_check_contradicting
    [of "[(''daterange'', PStr ''2021''), (''min_date'', PStr ''2020'')]"
        "[''min_date'', ''max_date'', ''daterange'', ''radius'', ''image_type'', ''org_id'',
          ''fields'']"
        "''image_check''"]
  by (simp add: image_check_def)

text \<open>
  C7. A kwargs dictionary that passes the key check and the date check and whose \<open>zoom\<close>
  value is a number below 14 or above 17 is rejected with \<open>InvalidOptionError\<close> listing
  the options 14, 15, 16, 17; \<open>{"zoom": 20}\<close> with options \<open>["zoom"]\<close> is the instance
  shown after the theorem.
\<close>

theorem kwarg_check_zoom_out_of_range:
  assumes "set (map fst d) \<subseteq> set options"
    and "\<not> ((''min_date'' \<in> set (map fst d) \<or> ''max_date'' \<in> set (map fst d))
            \<and> ''daterange'' \<in> set (map fst d))"
    and "map_of d ''zoom'' = Some z"
    and "numeric_value z = Some n"
    and "n < 14 \<or> 17 < n"
  shows "kwarg_check (PDict d) options callback =
           Inl (InvalidOptionError ''zoom'' z [PInt 14, PInt 15, PInt 16, PInt 17])"
proof -
  have keys: "check_keys (PDict d) (map fst d) options callback = Inr ()"
    using assms(1) by (rule check_keys_allowed)
  have has_zoom: "''zoom'' \<in> set (map fst d)"
    using assms(3) by (rule map_of_key_in)
  have cmp: "py_or (py_lt_int z 14) (py_gt_int z 17) = Inr True"
    using assms(4,5) by (cases z) (auto simp: py_or_def bindE_def split: if_splits)
  show ?thesis
    using keys has_zoom cmp assms(2,3)
    by (auto simp: kwarg_check_def bindE_def py_and_def py_or_def)
qed

theorem kwarg_check_zoom_out_of_range_witness:
  "kwarg_check (PDict [(''zoom'', PInt 20)]) [''zoom''] ''x'' =
     Inl (InvalidOptionError ''zoom'' (PInt 20) [PInt 14, PInt 15, PInt 16, PInt 17])"
  using kwarg_check_zoom_out_of_range
    [of "[(''zoom'', PInt 20)]" "[''zoom'']" "PInt 20" 20 "''x''"]
  by simp

section \<open>Properties of the format conversions\<close>

lemma map_of_dict_set: "map_of (dict_set d k v) = (map_of d)(k \<mapsto> v)"
  by (induction d k v rule: dict_set.induct) auto

lemma dict_set_same: "map_of d k = Some v \<Longrightarrow> dict_set d k v = d"
  by (induction d k v rule: dict_set.induct) (auto split: if_splits)

lemma copy_properties_result:
  "set keys \<subseteq> set (map fst d) \<Longrightarrow>
   \<exists>props. copy_properties (PDict d) keys acc = Inr props \<and>
     (\<forall>k. map_of props k = (if k \<in> set keys then map_of d k else map_of acc k))"
proof (induction keys arbitrary: acc)
  case Nil
  then show ?case by simp
next
  case (Cons key keys)
  from Cons.prems obtain v where v: "map_of d key = Some v"
    by (metis list.set_intros(1) map_of_eq_None_iff not_None_eq set_map subsetD)
  from Cons.prems have "set keys \<subseteq> set (map fst d)" by simp
  from Cons.IH[OF this, of "dict_set acc key v"] obtain props where
    p: "copy_properties (PDict d) keys (dict_set acc key v) = Inr props"
    and q: "\<forall>k. map_of props k =
              (if k \<in> set keys then map_of d k else map_of (dict_set acc key v) k)"
    by blast
  show ?case
    using v p q by (auto simp: bindE_def map_of_dict_set)
qed

text \<open>
  C4, as the code has it. A record without \<open>geometry\<close> makes \<open>feature_to_geojson\<close>
  raise the built-in \<open>KeyError\<close> for that key. A record with \<open>geometry\<close> gives a
  Feature that carries the geometry, and whose properties hold every other attribute of
  the record under its own name with its own value, and nothing else.
\<close>

theorem feature_to_geojson_geometry:
  "(case map_of d ''geometry'' of
      None \<Rightarrow> feature_to_geojson (PDict d) = Inl (KeyError ''geometry'')
    | Some g \<Rightarrow>
        (\<exists>props. feature_to_geojson (PDict d) =
             Inr (PDict [(''type'', PStr ''Feature''), (''geometry'', g),
                         (''properties'', PDict props)]) \<and>
           (\<forall>k. map_of props k = (if k = ''geometry'' then None else map_of d k))))"
proof (cases "map_of d ''geometry''")
  case None
  then show ?thesis by (simp add: feature_to_geojson_def bindE_def)
next
  case (Some g)
  have sub: "set (filter (\<lambda>key. key \<noteq> ''geometry'') (map fst d)) \<subseteq> set (map fst d)"
    by auto
  from copy_properties_result[OF sub, of "[]"] obtain props where
    p: "copy_properties (PDict d) (filter (\<lambda>key. key \<noteq> ''geometry'') (map fst d)) [] =
          Inr props"
    and q: "\<forall>k. map_of props k =
              (if k \<in> set (filter (\<lambda>key. key \<noteq> ''geometry'') (map fst d))
               then map_of d k else map_of [] k)"
    by blast
  have "map_of props k = (if k = ''geometry'' then None else map_of d k)" for k
  proof (cases "k \<in> set (map fst d)")
    case True
    then show ?thesis using q by auto
  next
    case False
    then have "map_of d k = None" by (simp add: map_of_eq_None_iff)
    then show ?thesis using q False by auto
  qed
  then show ?thesis
    using Some p by (simp add: feature_to_geojson_def bindE_def Let_def)
qed

theorem feature_to_geojson_geometry_witness:
  "feature_to_geojson (PDict [(''id'', PStr ''506566177256016'')]) =
     Inl (KeyError ''geometry'') \<and>
   (\<exists>props. feature_to_geojson
        (PDict [(''geometry'', PDict [(''type'', PStr ''Point''),
                                      (''coordinates'', PList [PInt 30, PInt 31])]),
                (''id'', PStr ''506566177256016'')]) =
      Inr (PDict [(''type'', PStr ''Feature''),
                  (''geometry'', PDict [(''type'', PStr ''Point''),
                                        (''coordinates'', PList [PInt 30, PInt 31])]),
                  (''properties'', PDict props)]) \<and>
      map_of props ''id'' = Some (PStr ''506566177256016'') \<and>
      map_of props ''geometry'' = None)"
  using feature_to_geojson_geometry[of "[(''id'', PStr ''506566177256016'')]"]
    feature_to_geojson_geometry
      [of "[(''geometry'', PDict [(''type'', PStr ''Point''),
                                  (''coordinates'', PList [PInt 30, PInt 31])]),
            (''id'', PStr ''506566177256016'')]"]
  by auto

text \<open>C4 as stated fails: for the record \<open>{"id": "506566177256016"}\<close>, which has no
  \<open>geometry\<close>, the exception is not \<open>MissingGeometryError\<close>.\<close>

theorem feature_to_geojson_missing_geometry_counterexample:
  "feature_to_geojson (PDict [(''id'', PStr ''506566177256016'')]) \<noteq>
     Inl MissingGeometryError"
  by (simp add: feature_to_geojson_def bindE_def)

lemma delete_none_properties_id: "delete_none_properties keys properties = properties"
  by (induction keys arbitrary: properties) auto

lemma detection_properties_image_id:
  "detection_properties feature = Inr props \<Longrightarrow> map_of props ''image_id'' = Some PNone"
  by (auto simp: detection_properties_def bindE_Inr split: if_splits)

text \<open>The properties of a built feature always have the same five keys.\<close>

lemma detection_properties_keys:
  "detection_properties feature = Inr props \<Longrightarrow>
   map fst props = [''image_id'', ''created_at'', ''pixel_geometry'', ''value'', ''id'']"
  by (auto simp: detection_properties_def bindE_Inr split: if_splits)

lemma detection_feature_shape:
  assumes "detection_feature feature = Inr f"
  obtains geometry props where
    "f = PDict [(''type'', PStr ''Feature''), (''geometry'', geometry),
                (''properties'', PDict props)]"
    "map_of props ''image_id'' = Some PNone"
proof -
  from assms obtain geometry props where
    p: "detection_properties feature = Inr props"
    and f: "f = PDict [(''type'', PStr ''Feature''), (''geometry'', geometry),
                       (''properties'', PDict props)]"
    by (auto simp: detection_feature_def bindE_Inr)
  from p have "map_of props ''image_id'' = Some PNone"
    by (rule detection_properties_image_id)
  with f show ?thesis by (rule that)
qed

lemma clean_feature_id:
  "clean_feature
     (PDict [(''type'', t), (''geometry'', g), (''properties'', PDict props)]) =
   Inr (PDict [(''type'', t), (''geometry'', g), (''properties'', PDict props)])"
  by (simp add: clean_feature_def bindE_def delete_none_properties_id)

lemma mapE_Inr:
  "mapE f xs = Inr ys \<Longrightarrow>
     length ys = length xs \<and> (\<forall>y \<in> set ys. \<exists>x \<in> set xs. f x = Inr y)"
proof (induction xs arbitrary: ys)
  case Nil
  then show ?case by simp
next
  case (Cons x xs)
  then show ?case
    by (fastforce simp: bindE_Inr)
qed

text \<open>
  C1, at the input of the claim. For \<open>[{"id": "1", "value": "v"}]\<close> the properties of
  the output feature hold \<open>image_id\<close>, \<open>created_at\<close> and \<open>pixel_geometry\<close> with the
  value \<open>None\<close>: the clean-up loop tests the key, not the value, and deletes nothing.
\<close>

theorem detection_features_keep_none_properties:
  "detection_features_to_geojson
     (PList [PDict [(''id'', PStr ''1''), (''value'', PStr ''v'')]]) =
   Inr (PDict [(''type'', PStr ''FeatureCollection''),
               (''features'',
                PList [PDict [(''type'', PStr ''Feature''), (''geometry'', PDict []),
                  (''properties'',
                   PDict [(''image_id'', PNone), (''created_at'', PNone),
                          (''pixel_geometry'', PNone), (''value'', PStr ''v''),
                          (''id'', PStr ''1'')])]])])"
  by (simp add: detection_features_to_geojson_def detection_feature_def
        detection_properties_def detection_geometry_def get_or_none_def clean_feature_def
        bindE_def)

text \<open>
  C10. Whenever \<open>detection_features_to_geojson\<close> returns, its output has one feature
  for each record, and the \<open>image_id\<close> property of every feature is \<open>None\<close>, whether
  or not the record has an \<open>image\<close>: the guard \<open>"image" in "feature"\<close> is false.
\<close>

theorem detection_image_id_is_none:
  assumes "detection_features_to_geojson feature_list = Inr out"
  shows "\<exists>records features.
           py_iter feature_list = Inr records \<and>
           py_getitem out ''features'' = Inr (PList features) \<and>
           length features = length records \<and>
           (\<forall>f \<in> set features. \<exists>props.
              py_getitem f ''properties'' = Inr (PDict props) \<and>
              map_of props ''image_id'' = Some PNone)"
proof -
  from assms obtain records features cleaned where
    r: "py_iter feature_list = Inr records"
    and m: "mapE detection_feature records = Inr features"
    and c: "mapE clean_feature features = Inr cleaned"
    and out: "out = PDict [(''type'', PStr ''FeatureCollection''),
                           (''features'', PList cleaned)]"
    by (auto simp: detection_features_to_geojson_def bindE_Inr)
  from mapE_Inr[OF m] have len: "length features = length records"
    and built: "\<forall>y \<in> set features. \<exists>x \<in> set records. detection_feature x = Inr y"
    by auto
  from mapE_Inr[OF c] have len': "length cleaned = length features"
    and cleaned: "\<forall>y \<in> set cleaned. \<exists>x \<in> set features. clean_feature x = Inr y"
    by auto
  have "\<exists>props. py_getitem f ''properties'' = Inr (PDict props) \<and>
           map_of props ''image_id'' = Some PNone" if "f \<in> set cleaned" for f
  proof -
    from cleaned that obtain x where x: "x \<in> set features" and cx: "clean_feature x = Inr f"
      by blast
    from built x obtain src where "detection_feature src = Inr x" by blast
    then obtain geometry props where
      shape: "x = PDict [(''type'', PStr ''Feature''), (''geometry'', geometry),
                         (''properties'', PDict props)]"
      and none: "map_of props ''image_id'' = Some PNone"
      by (rule detection_feature_shape)
    from cx shape have "f = x" by (simp add: clean_feature_id)
    with shape none show ?thesis by simp
  qed
  with r len len' out show ?thesis by simp
qed

theorem detection_image_id_is_none_witness:
  "detection_features_to_geojson
     (PList [PDict [(''created_at'', PStr ''2021-05-20T17:49:01+0000''),
                    (''image'',
                     PDict [(''geometry'', PDict [(''type'', PStr ''Point''),
                                                  (''coordinates'', PList [PInt (-97), PInt 30])]),
                            (''id'', PStr ''1933525276802129'')]),
                    (''value'', PStr ''regulatory--no-parking--g2''),
                    (''id'', PStr ''1942105415944115'')]]) =
   Inr (PDict [(''type'', PStr ''FeatureCollection''),
               (''features'',
                PList [PDict [(''type'', PStr ''Feature''),
                  (''geometry'', PDict [(''type'', PStr ''Point''),
                                        (''coordinates'', PList [PInt (-97), PInt 30])]),
                  (''properties'',
                   PDict [(''image_id'', PNone),
                          (''created_at'', PStr ''2021-05-20T17:49:01+0000''),
                          (''pixel_geometry'', PNone),
                          (''value'', PStr ''regulatory--no-parking--g2''),
                          (''id'', PStr ''1942105415944115'')])]])])
   \<and> (\<exists>props.
        py_getitem
          (PDict [(''type'', PStr ''Feature''),
                  (''geometry'', PDict [(''type'', PStr ''Point''),
                                        (''coordinates'', PList [PInt (-97), PInt 30])]),
                  (''properties'',
                   PDict [(''image_id'', PNone),
                          (''created_at'', PStr ''2021-05-20T17:49:01+0000''),
                          (''pixel_geometry'', PNone),
                          (''value'', PStr ''regulatory--no-parking--g2''),
                          (''id'', PStr ''1942105415944115'')])])
          ''properties'' = Inr (PDict props)
        \<and> map_of props ''image_id'' = Some PNone)"
proof -
  let ?input =
    "PList [PDict [(''created_at'', PStr ''2021-05-20T17:49:01+0000''),
                   (''image'',
                    PDict [(''geometry'', PDict [(''type'', PStr ''Point''),
                                                 (''coordinates'', PList [PInt (-97), PInt 30])]),
                           (''id'', PStr ''1933525276802129'')]),
                   (''value'', PStr ''regulatory--no-parking--g2''),
                   (''id'', PStr ''1942105415944115'')]]"
  let ?feature =
    "PDict [(''type'', PStr ''Feature''),
            (''geometry'', PDict [(''type'', PStr ''Point''),
                                  (''coordinates'', PList [PInt (-97), PInt 30])]),
            (''properties'',
             PDict [(''image_id'', PNone),
                    (''created_at'', PStr ''2021-05-20T17:49:01+0000''),
                    (''pixel_geometry'', PNone),
                    (''value'', PStr ''regulatory--no-parking--g2''),
                    (''id'', PStr ''1942105415944115'')])]"
  let ?out = "PDict [(''type'', PStr ''FeatureCollection''), (''features'', PList [?feature])]"
  have run: "detection_features_to_geojson ?input = Inr ?out"
    by (simp add: detection_features_to_geojson_def detection_feature_def
        detection_properties_def detection_geometry_def get_or_none_def clean_feature_def
        bindE_def)
  from detection_image_id_is_none[OF run] show ?thesis
    using run by auto
qed

lemma copy_new_properties_raises:
  "\<not> set new_properties \<subseteq> set old_properties \<Longrightarrow>
   copy_new_properties old_properties new_properties from_features = Inl TypeError"
  by (induction new_properties) (auto simp: bindE_def)

lemma copy_new_properties_unchanged:
  "copy_new_properties old_properties new_properties from_features = Inr r \<Longrightarrow>
   r = from_features"
  by (induction new_properties) (auto simp: bindE_def split: if_splits)

lemma join_pair_unchanged:
  assumes "join_pair geojson_src_key geojson_dest_key from_features into_features = Inr r"
  shows "r = from_features"
  using assms unfolding join_pair_def
  by (auto simp: bindE_Inr split: if_splits dest: copy_new_properties_unchanged)

lemma join_into_unchanged:
  "join_into geojson_src_key geojson_dest_key from_features dest_features = Inr r \<Longrightarrow>
   r = from_features"
proof (induction dest_features arbitrary: from_features)
  case Nil
  then show ?case by simp
next
  case (Cons into_features rest)
  then show ?case
    by (auto simp: bindE_Inr dest: join_pair_unchanged)
qed

lemma join_from_unchanged:
  "join_from geojson_src_key geojson_dest_key geojson_dest src_features = Inr updated \<Longrightarrow>
   updated = src_features"
proof (induction src_features arbitrary: updated)
  case Nil
  then show ?case by simp
next
  case (Cons from_features rest)
  then show ?case
    by (auto simp: bindE_Inr dest: join_into_unchanged)
qed

lemma store_features_same:
  assumes "bindE (py_getitem geojson_src ''features'') py_iter = Inr src_features"
  shows "store_features geojson_src src_features = geojson_src"
proof -
  from assms obtain fs where g: "py_getitem geojson_src ''features'' = Inr fs"
    and it: "py_iter fs = Inr src_features"
    unfolding bindE_Inr by blast
  from g obtain d where d: "geojson_src = PDict d" and m: "map_of d ''features'' = Some fs"
    by (cases geojson_src) (auto split: option.splits)
  show ?thesis
  proof (cases fs)
    case (PList xs)
    with it have "xs = src_features" by simp
    with d m PList show ?thesis by (simp add: store_features_def dict_set_same)
  qed (use d m in \<open>simp_all add: store_features_def\<close>)
qed

text \<open>Whenever \<open>join_geojson_with_keys\<close> returns, it returns \<open>geojson_src\<close> as it
  was given: no run of it copies a property.\<close>

lemma join_geojson_with_keys_copies_nothing:
  assumes "join_geojson_with_keys geojson_src geojson_src_key geojson_dest geojson_dest_key =
             Inr r"
  shows "r = geojson_src"
proof -
  from assms obtain src_features updated where
    s: "bindE (py_getitem geojson_src ''features'') py_iter = Inr src_features"
    and u: "join_from geojson_src_key geojson_dest_key geojson_dest src_features = Inr updated"
    and r: "r = store_features geojson_src updated"
    unfolding join_geojson_with_keys_def by (auto simp: bindE_Inr)
  from join_from_unchanged[OF u] have "updated = src_features" .
  with store_features_same[OF s] r show ?thesis by simp
qed

text \<open>
  C3, at a pair of collections with one feature each, both with \<open>id\<close> 1, the
  destination feature with one more property \<open>value\<close>: the call raises \<open>TypeError\<close>
  at the assignment, before anything is copied.
\<close>

theorem join_geojson_with_keys_raises:
  "join_geojson_with_keys
     (PDict [(''type'', PStr ''FeatureCollection''),
             (''features'',
              PList [PDict [(''type'', PStr ''Feature''), (''geometry'', PDict []),
                            (''properties'', PDict [(''id'', PInt 1)])]])])
     ''id''
     (PDict [(''type'', PStr ''FeatureCollection''),
             (''features'',
              PList [PDict [(''type'', PStr ''Feature''), (''geometry'', PDict []),
                            (''properties'',
                             PDict [(''id'', PInt 1),
                                    (''value'', PStr ''object--street-light'')])]])])
     ''id'' = Inl TypeError"
  by (simp add: join_geojson_with_keys_def join_pair_def bindE_def py_or_def)

section \<open>Properties of the bounding-box controller\<close>



text \<open>The stage list is built whenever the two date lookups succeed.\<close>

lemma pipeline_components_total:
  assumes "py_getitem filters ''existed_at'' = Inr at"
    and "py_getitem filters ''existed_before'' = Inr before"
  shows "\<exists>components. pipeline_components bbox filter_values filters = Inr components"
  using assms by (simp add: pipeline_components_def date_component_def bindE_def)

lemma tile_loop_step:
  assumes "tile_loop env bbox filter_values filters layer (tile # tiles) client acc = (result, trace)"
  obtains (no_request) "trace = []"
  | (request) url where "trace = [Fetch url]"
  | (last_call) url data components where
      "pipeline_components bbox filter_values filters = Inr components"
      "trace = [Fetch url, Pipeline data components]"
  | (next_tile) url data components client' acc' trace' where
      "pipeline_components bbox filter_values filters = Inr components"
      "trace = Fetch url # Pipeline data components # trace'"
      "tile_loop env bbox filter_values filters layer tiles client' acc' = (result, trace')"
proof (cases "tile_url env layer tile")
  case (Inl e)
  with assms have "trace = []" by auto
  then show ?thesis by (rule no_request)
next
  case (Inr url)
  obtain got client' where got: "client_get env client url = (got, client')"
    by (cases "client_get env client url")
  show ?thesis
  proof (cases got)
    case (Inl e)
    with assms Inr got have "trace = [Fetch url]" by auto
    then show ?thesis by (rule request)
  next
    case res: (Inr res)
    show ?thesis
    proof (cases "vt_bytes_to_geojson env (content res) (tile_x tile) (tile_y tile) (tile_z tile)")
      case (Inl e)
      with assms Inr got res have "trace = [Fetch url]" by auto
      then show ?thesis by (rule request)
    next
      case data: (Inr data)
      show ?thesis
      proof (cases "pipeline_components bbox filter_values filters")
        case (Inl e)
        with assms Inr got res data have "trace = [Fetch url]" by auto
        then show ?thesis by (rule request)
      next
        case comps: (Inr components)
        show ?thesis
        proof (cases "bindE (pipeline env data components) py_iter")
          case (Inl e)
          with assms Inr got res data comps
          have "trace = [Fetch url, Pipeline data components]" by auto
          with comps show ?thesis by (rule last_call)
        next
          case kept: (Inr kept)
          obtain r tr where rest:
            "tile_loop env bbox filter_values filters layer tiles client' (acc @ kept) = (r, tr)"
            by (cases "tile_loop env bbox filter_values filters layer tiles client' (acc @ kept)")
          with assms Inr got res data comps kept
          have "result = r" and "trace = Fetch url # Pipeline data components # tr"
            by auto
          with rest comps show ?thesis by (auto intro: next_tile)
        qed
      qed
    qed
  qed
qed


lemma tile_loop_no_validate:
  "tile_loop env bbox filter_values filters layer tiles client acc = (result, trace) \<Longrightarrow>
   Validate f \<notin> set trace"
proof (induction tiles arbitrary: client acc result trace)
  case Nil
  then show ?case by auto
next
  case (Cons tile tiles)
  from Cons.prems(1) show ?case
  proof (cases rule: tile_loop_step)
    case (next_tile url d c client' acc' trace')
    from Cons.IH[OF next_tile(3)] next_tile(2) show ?thesis by simp
  qed simp_all
qed

text \<open>The three shapes of a run: the validator raises; the run stops before the loop
  (the client, the bounding box or the tile enumeration raises); the loop runs.\<close>

lemma controller_trace:
  obtains (rejected) e where
      "points_traffic_signs_check env filters = Inl e"
      "get_map_features_in_bbox_controller env bbox filter_values filters layer =
         (Inl e, [Validate filters])"
  | (stopped) validated where
      "points_traffic_signs_check env filters = Inr validated"
      "snd (get_map_features_in_bbox_controller env bbox filter_values filters layer) =
         [Validate filters]"
  | (looped) validated tiles client result trace where
      "points_traffic_signs_check env filters = Inr validated"
      "tile_loop env bbox filter_values validated layer tiles client [] = (result, trace)"
      "snd (get_map_features_in_bbox_controller env bbox filter_values filters layer) =
         Validate filters # trace"
proof (cases "points_traffic_signs_check env filters")
  case (Inl e)
  then have "get_map_features_in_bbox_controller env bbox filter_values filters layer =
         (Inl e, [Validate filters])"
    by (simp add: get_map_features_in_bbox_controller_def)
  with Inl show ?thesis by (rule rejected)
next
  case v: (Inr validated)
  show ?thesis
  proof (cases "Client env")
    case (Inl e)
    with v have "snd (get_map_features_in_bbox_controller env bbox filter_values filters layer) =
         [Validate filters]"
      by (simp add: get_map_features_in_bbox_controller_def)
    with v show ?thesis by (rule stopped)
  next
    case c: (Inr client)
    define found where "found =
      bindE (py_getitem bbox ''west'')
        (\<lambda>west. bindE (py_getitem bbox ''south'')
        (\<lambda>south. bindE (py_getitem bbox ''east'')
        (\<lambda>east. bindE (py_getitem bbox ''north'')
        (\<lambda>north. mercantile_tiles env west south east north 14))))"
    show ?thesis
    proof (cases found)
      case (Inl e)
      with v c have "snd (get_map_features_in_bbox_controller env bbox filter_values filters layer) =
           [Validate filters]"
        unfolding found_def by (simp add: get_map_features_in_bbox_controller_def)
      with v show ?thesis by (rule stopped)
    next
      case t: (Inr tiles)
      obtain result trace where loop:
        "tile_loop env bbox filter_values validated layer tiles client [] = (result, trace)"
        by (cases "tile_loop env bbox filter_values validated layer tiles client []")
      with v c t have "snd (get_map_features_in_bbox_controller env bbox filter_values filters layer) =
           Validate filters # trace"
        unfolding found_def
        by (cases result) (simp_all add: get_map_features_in_bbox_controller_def)
      with v loop show ?thesis by (rule looped)
    qed
  qed
qed







text \<open>
  C6. Every run of the controller starts with the call of the validator, and no later
  event is a validation: each tile request comes after it. When the validator raises, the
  controller raises the same exception and the run has no tile request.
\<close>

theorem bbox_controller_validates_first:
  "\<exists>rest. snd (get_map_features_in_bbox_controller env bbox filter_values filters layer) =
            Validate filters # rest \<and>
          (\<forall>f. Validate f \<notin> set rest) \<and>
          (\<forall>e. points_traffic_signs_check env filters = Inl e \<longrightarrow>
                rest = [] \<and>
                fst (get_map_features_in_bbox_controller env bbox filter_values filters layer) = Inl e)"
proof (cases rule: controller_trace[of env filters bbox filter_values layer])
  case (rejected e)
  then show ?thesis by simp
next
  case (stopped validated)
  then show ?thesis by simp
next
  case (looped validated tiles client result trace)
  from looped(2) have "Validate f \<notin> set trace" for f
    by (rule tile_loop_no_validate)
  with looped(1,3) show ?thesis by simp
qed

subsection \<open>The concrete run\<close>


theorem bbox_controller_validates_first_witness:
  "get_map_features_in_bbox_controller scenario_env scenario_bbox PNone
     (PDict [(''existed_at'', PNone), (''daterange'', PStr ''2021'')]) ''points'' =
     (Inl (InvalidKwargError ''points_traffic_signs_check'' ''daterange'' (PStr ''2021'')
             [''existed_at'', ''existed_before'']),
      [Validate (PDict [(''existed_at'', PNone), (''daterange'', PStr ''2021'')])])"
proof -
  let ?filters = "PDict [(''existed_at'', PNone), (''daterange'', PStr ''2021'')]"
  let ?run = "get_map_features_in_bbox_controller scenario_env scenario_bbox PNone ?filters ''points''"
  have v: "points_traffic_signs_check scenario_env ?filters =
      Inl (InvalidKwargError ''points_traffic_signs_check'' ''daterange'' (PStr ''2021'')
             [''existed_at'', ''existed_before''])"
    by (simp add: scenario_env_def kwarg_check_def bindE_def)
  from bbox_controller_validates_first[of scenario_env scenario_bbox PNone ?filters "''points''"]
  obtain rest where "snd ?run = Validate ?filters # rest"
    and "\<forall>e. points_traffic_signs_check scenario_env ?filters = Inl e \<longrightarrow>
               rest = [] \<and> fst ?run = Inl e"
    by blast
  with v have "snd ?run = [Validate ?filters]" and
    "fst ?run = Inl (InvalidKwargError ''points_traffic_signs_check'' ''daterange'' (PStr ''2021'')
             [''existed_at'', ''existed_before''])"
    by simp_all
  then show ?thesis by (simp add: prod_eq_iff)
qed

section \<open>Properties of json.dumps and json.loads\<close>

lemma bindE_Inr_simp [simp]: "bindE (Inr x) f = f x"
  by (simp add: bindE_def)

subsection \<open>Numerals\<close>















subsection \<open>Strings\<close>

lemma hex_digit_value: "k < 16 \<Longrightarrow> hex_value (hex_digit k) = Some k"
proof -
  have "\<forall>k \<in> set [0..<16]. hex_value (hex_digit k) = Some k"
    by code_simp
  then show "k < 16 \<Longrightarrow> ?thesis" by simp
qed

lemma hex_value_zero: "hex_value (CHR ''0'') = Some 0"
  by (simp add: hex_value_def)

lemma char_code_split: "char_of (16 * ((of_char c :: nat) div 16) + (of_char c :: nat) mod 16) = c"
  by simp

lemma of_char_div_16: "(of_char c :: nat) div 16 < 16"
proof -
  have "(of_char c :: nat) mod 256 < 256" by simp
  then have "(of_char c :: nat) < 256" by simp
  then show ?thesis by (simp add: div_less_iff_less_mult)
qed

lemma scan_string_escape:
  "scan_string (escape_char c @ t) = bindE (scan_string t) (\<lambda>(s, r). Inr (c # s, r))"
proof -
  consider (quote) "c = CHR 0x22" | (backslash) "c = CHR 0x5C" | (lf) "c = CHR 0x0A"
    | (cr) "c = CHR 0x0D" | (tab) "c = CHR 0x09" | (bs) "c = CHR 0x08" | (ff) "c = CHR 0x0C"
    | (coded) "c \<noteq> CHR 0x22" "c \<noteq> CHR 0x5C" "c \<noteq> CHR 0x0A" "c \<noteq> CHR 0x0D" "c \<noteq> CHR 0x09"
        "c \<noteq> CHR 0x08" "c \<noteq> CHR 0x0C" "(of_char c :: nat) < 32 \<or> 126 < (of_char c :: nat)"
    | (plain) "c \<noteq> CHR 0x22" "c \<noteq> CHR 0x5C" "c \<noteq> CHR 0x0A" "c \<noteq> CHR 0x0D" "c \<noteq> CHR 0x09"
        "c \<noteq> CHR 0x08" "c \<noteq> CHR 0x0C" "\<not> ((of_char c :: nat) < 32 \<or> 126 < (of_char c :: nat))"
    by blast
  then show ?thesis
  proof cases
    case coded
    then have esc: "escape_char c = [CHR 0x5C, CHR ''u'', CHR ''0'', CHR ''0'',
            hex_digit (of_char c div 16), hex_digit (of_char c mod 16)]"
      by (simp add: escape_char_def)
    have hi: "hex_value (hex_digit (of_char c div 16)) = Some (of_char c div 16)"
      by (rule hex_digit_value) (rule of_char_div_16)
    have lo: "hex_value (hex_digit (of_char c mod 16)) = Some (of_char c mod 16)"
      by (rule hex_digit_value) simp
    show ?thesis
      unfolding esc by (simp add: hi lo hex_value_zero)
  next
    case plain
    then have "escape_char c = [c]" by (simp add: escape_char_def)
    with plain show ?thesis by simp
  qed (simp_all add: escape_char_def unescape_def)
qed

lemma scan_string_json:
  "scan_string (concat (map escape_char s) @ CHR 0x22 # rest) = Inr (s, rest)"
  by (induction s) (simp_all add: scan_string_escape)

lemma json_string_decodes:
  "json_string s @ rest = CHR 0x22 # t \<Longrightarrow> scan_string t = Inr (s, rest)"
  by (auto simp: json_string_def scan_string_json)

subsection \<open>Arrays and objects\<close>



lemma skip_ws_punct [simp]:
  "skip_ws (CHR '']'' # s) = CHR '']'' # s"
  "skip_ws (CHR ''}'' # s) = CHR ''}'' # s"
  "skip_ws (CHR '','' # s) = CHR '','' # s"
  "skip_ws (CHR '':'' # s) = CHR '':'' # s"
  "skip_ws [] = []"
  by (simp_all add: skip_ws_def is_json_space_def)




lemma json_string_clean: "starts_clean (json_string k @ t)"
  by (simp add: starts_clean_def is_json_space_def json_string_def)






lemma delimited_simps [simp]:
  "delimited []" "delimited (CHR '','' # s)" "delimited (CHR '']'' # s)" "delimited (CHR ''}'' # s)"
  by (simp_all add: delimited_def)




subsection \<open>Values\<close>
















section \<open>The round trip of a list of features\<close>




end
